theory Spec2Isabelle
  imports Complex_Main
begin

chapter \<open>Flash Gateway: a shallow embedding of the proxy, the guardrail executor and the sinks\<close>

section \<open>Values shared by the components\<close>

text \<open>
  Go's \<^verbatim>\<open>interface{}\<close> values that the gateway stores in headers, metadata maps and
  JSON documents. A Go map that is only looked up is a partial function; a map that is
  serialised or iterated is an association list.
\<close>

datatype iface =
    INil
  | IBool bool
  | IInt int
  | IFloat real
  | IStr string
  | IList "iface list"
  | IMap "(string \<times> iface) list"

text \<open>A panic is a result of its own: it is neither a returned value nor a returned error.\<close>

datatype 'a outcome = Panic string | Return 'a

text \<open>\<^verbatim>\<open>fmt.Sprintf("%d", n)\<close>: decimal digits, most significant first.\<close>

function itoa :: "nat \<Rightarrow> string" where
  "itoa n = (if n < 10 then [''0123456789'' ! n] else itoa (n div 10) @ [''0123456789'' ! (n mod 10)])"
  by pat_completeness auto
termination
  by (relation "measure id") auto

definition sprint_int :: "int \<Rightarrow> string" where
  "sprint_int i = (if i < 0 then CHR ''-'' # itoa (nat (- i)) else itoa (nat i))"

text \<open>
  \<^verbatim>\<open>strings.ToLower\<close> and \<^verbatim>\<open>strings.ToUpper\<close> on the ASCII letters; header names and
  HTTP methods are ASCII, and every other byte is left as it is.
\<close>

definition lower_char :: "char \<Rightarrow> char" where
  "lower_char c =
     (case map_of (zip ''ABCDEFGHIJKLMNOPQRSTUVWXYZ'' ''abcdefghijklmnopqrstuvwxyz'') c of
        Some l \<Rightarrow> l
      | None \<Rightarrow> c)"

definition upper_char :: "char \<Rightarrow> char" where
  "upper_char c =
     (case map_of (zip ''abcdefghijklmnopqrstuvwxyz'' ''ABCDEFGHIJKLMNOPQRSTUVWXYZ'') c of
        Some u \<Rightarrow> u
      | None \<Rightarrow> c)"

definition ToLower :: "string \<Rightarrow> string" where
  "ToLower s = map lower_char s"

definition ToUpper :: "string \<Rightarrow> string" where
  "ToUpper s = map upper_char s"

text \<open>\<^verbatim>\<open>strings.Contains\<close> and \<^verbatim>\<open>strings.HasPrefix\<close>.\<close>

fun Contains :: "string \<Rightarrow> string \<Rightarrow> bool" where
  "Contains [] sub = (sub = [])"
| "Contains (c # cs) sub = (take (length sub) (c # cs) = sub \<or> Contains cs sub)"

definition HasPrefix :: "string \<Rightarrow> string \<Rightarrow> bool" where
  "HasPrefix s pre = (take (length pre) s = pre)"

subsection \<open>HTTP headers, requests and response writers\<close>

text \<open>
  \<^verbatim>\<open>http.Header\<close> is \<^verbatim>\<open>map[string][]string\<close>. The maps of the model hold keys in the
  canonical form in which net/http stores them, so \<^verbatim>\<open>Get\<close>, \<^verbatim>\<open>Set\<close> and \<^verbatim>\<open>Add\<close> are
  used with canonical keys only, as every literal key of the source is.
\<close>

type_synonym header = "string \<rightharpoonup> string list"

definition hGet :: "header \<Rightarrow> string \<Rightarrow> string" where
  "hGet h k = (case h k of Some (v # _) \<Rightarrow> v | _ \<Rightarrow> [])"

definition hSet :: "header \<Rightarrow> string \<Rightarrow> string \<Rightarrow> header" where
  "hSet h k v = h(k \<mapsto> [v])"

definition hAdd :: "header \<Rightarrow> string \<Rightarrow> string \<Rightarrow> header" where
  "hAdd h k v = h(k \<mapsto> (case h k of None \<Rightarrow> [] | Some vs \<Rightarrow> vs) @ [v])"

text \<open>
  An \<^verbatim>\<open>io.ReadCloser\<close> is modelled by what reading it to the end delivers: its
  bytes, or a read error raised by the first read of the underlying stream.
\<close>

datatype ReadCloser = Body string | Broken string

text \<open>
  The state of a \<^verbatim>\<open>context.Context\<close>: \<open>None\<close> while it is live, otherwise the
  text of \<^verbatim>\<open>ctx.Err()\<close>.
\<close>

type_synonym ctx = "string option"

definition Canceled :: string where
  "Canceled = ''context canceled''"

definition DeadlineExceeded :: string where
  "DeadlineExceeded = ''context deadline exceeded''"

record Request =
  Method :: string
  URLPath :: string
  Header :: header
  ReqBody :: "ReadCloser option"
  RemoteAddr :: string
  ReqCtx :: ctx
  request_id :: "string option"

text \<open>
  An \<^verbatim>\<open>http.ResponseWriter\<close>: the header map, the status line once written, and the
  chunks handed to \<^verbatim>\<open>Write\<close>, in order. The bytes the client receives are their
  concatenation.
\<close>

record ResponseWriter =
  WHeader :: header
  WStatus :: "nat option"
  WWrites :: "string list"

definition WriteHeader :: "nat \<Rightarrow> ResponseWriter \<Rightarrow> ResponseWriter" where
  "WriteHeader code w = (case WStatus w of None \<Rightarrow> w\<lparr>WStatus := Some code\<rparr> | Some _ \<Rightarrow> w)"

definition Write :: "string \<Rightarrow> ResponseWriter \<Rightarrow> ResponseWriter" where
  "Write data w = (WriteHeader 200 w)\<lparr>WWrites := WWrites w @ [data]\<rparr>"

definition client_status :: "ResponseWriter \<Rightarrow> nat" where
  "client_status w = (case WStatus w of None \<Rightarrow> 200 | Some c \<Rightarrow> c)"

definition client_body :: "ResponseWriter \<Rightarrow> string" where
  "client_body w = concat (WWrites w)"

text \<open>\<^verbatim>\<open>http.Error\<close> of the Go 1.20 toolchain the repository builds with.\<close>

definition http_Error :: "ResponseWriter \<Rightarrow> string \<Rightarrow> nat \<Rightarrow> ResponseWriter" where
  "http_Error w msg code =
     Write (msg @ [CHR 0x0A])
       (WriteHeader code
         (w\<lparr>WHeader := hSet (hSet (WHeader w) ''Content-Type'' ''text/plain; charset=utf-8'')
                           ''X-Content-Type-Options'' ''nosniff''\<rparr>))"

section \<open>Capture layer (internal/middleware/capture.go)\<close>

definition TRUNCATED :: string where
  "TRUNCATED = CHR 0x0A # ''... [TRUNCATED]''"

definition REDACTED :: string where
  "REDACTED = ''[REDACTED]''"

text \<open>
  \<^verbatim>\<open>captureBody(body, maxSize)\<close> reads through \<^verbatim>\<open>io.LimitReader(body, maxSize)\<close> into a
  buffer and appends the marker when \<^verbatim>\<open>buf.Len() >= maxSize\<close>. A limit reader whose
  limit is not positive reports end of file without reading the underlying stream.
\<close>

definition captureBody :: "ReadCloser \<Rightarrow> int \<Rightarrow> string + string" where
  "captureBody body maxSize =
     (case (if maxSize \<le> 0 then Inr []
            else (case body of Broken e \<Rightarrow> Inl e | Body s \<Rightarrow> Inr (take (nat maxSize) s))) of
        Inl err \<Rightarrow> Inl err
      | Inr buf \<Rightarrow> Inr (if int (length buf) \<ge> maxSize then buf @ TRUNCATED else buf))"

text \<open>
  \<^verbatim>\<open>captureResponseWriter.Write\<close>, the part that fills the capture buffer (the data has
  gone to the client first, whole).
\<close>

definition capture_write :: "int \<Rightarrow> string \<Rightarrow> string \<Rightarrow> string" where
  "capture_write maxBodySize body data =
     (if int (length body) + int (length data) \<le> maxBodySize then body @ data
      else if int (length body) < maxBodySize
        then body @ take (nat (maxBodySize - int (length body))) data @ TRUNCATED
      else body)"

text \<open>The sensitive header names, as \<^verbatim>\<open>map[string]bool\<close> literals in both functions.\<close>

definition sensitiveHeaders :: "string \<Rightarrow> bool" where
  "sensitiveHeaders k =
     (k \<in> set [''authorization'', ''x-api-key'', ''cookie'', ''x-auth-token'', ''bearer''])"

text \<open>
  \<^verbatim>\<open>captureHeaders\<close>: every key of the header map is kept; its value is the sentinel when
  the lower-cased key is sensitive, the single value as a string, or the list of values.
\<close>

definition captureHeaders :: "(string \<Rightarrow> bool) \<Rightarrow> header \<Rightarrow> (string \<rightharpoonup> iface)" where
  "captureHeaders sens headers =
     (\<lambda>key. case headers key of
        None \<Rightarrow> None
      | Some values \<Rightarrow>
          (let lowerKey = ToLower key in
           Some (if sens lowerKey then IStr REDACTED
                 else if length values = 1 then IStr (values ! 0)
                 else IList (map IStr values))))"

text \<open>
  \<^verbatim>\<open>SanitizeForLog\<close> (internal/storage/models.go). A nil map is \<open>None\<close>. The source
  binds \<^verbatim>\<open>lowerKey := key\<close>: the key is looked up as it is written.
\<close>

definition SanitizeForLog :: "(string \<rightharpoonup> iface) option \<Rightarrow> (string \<rightharpoonup> iface) option" where
  "SanitizeForLog headers =
     (case headers of
        None \<Rightarrow> None
      | Some hs \<Rightarrow>
          Some (\<lambda>key. case hs key of
                  None \<Rightarrow> None
                | Some v \<Rightarrow>
                    (let lowerKey = key in
                     Some (if sensitiveHeaders lowerKey then IStr REDACTED else v))))"

text \<open>\<^verbatim>\<open>extractSessionID\<close> and \<^verbatim>\<open>extractProvider\<close>.\<close>

definition extractSessionID :: "Request \<Rightarrow> string" where
  "extractSessionID r =
     (if hGet (Header r) ''X-Session-ID'' \<noteq> [] then hGet (Header r) ''X-Session-ID''
      else if hGet (Header r) ''X-Request-ID'' \<noteq> [] then hGet (Header r) ''X-Request-ID''
      else if hGet (Header r) ''X-Correlation-ID'' \<noteq> [] then hGet (Header r) ''X-Correlation-ID''
      else (let auth = hGet (Header r) ''Authorization'';
                token = rev (takeWhile (\<lambda>c. c \<noteq> CHR '' '') (rev auth))
            in if auth \<noteq> [] \<and> CHR '' '' \<in> set auth \<and> length token > 8
               then drop (length token - 8) token else []))"

definition extractProvider :: "string \<Rightarrow> string" where
  "extractProvider path =
     (if HasPrefix path ''/v1/'' then ''openai''
      else if Contains path ''anthropic'' then ''anthropic''
      else if Contains path ''messages'' then ''anthropic''
      else [])"

section \<open>Request logs and their storage (internal/storage)\<close>

record RequestLog =
  ID :: string
  Timestamp :: nat
  SessionID :: "string option"
  RequestID :: string
  Endpoint :: string
  LogMethod :: string
  StatusCode :: "nat option"
  LatencyMs :: "nat option"
  Provider :: "string option"
  UserAgent :: "string option"
  LogRemoteAddr :: "string option"
  RequestHeaders :: "(string \<rightharpoonup> iface) option"
  RequestBody :: "string option"
  ResponseHeaders :: "(string \<rightharpoonup> iface) option"
  ResponseBody :: "string option"
  Error :: "string option"
  LogMetadata :: "(string \<rightharpoonup> iface) option"

text \<open>
  The database behind \<^verbatim>\<open>PostgreSQLStorage\<close>: the rows of \<^verbatim>\<open>request_logs\<close>, and the
  faults the driver reports to the three calls of a batch insert (\<open>None\<close>: the call
  succeeds).
\<close>

record DB =
  request_logs :: "RequestLog list"
  begin_fault :: "string option"
  exec_fault :: "string option"
  commit_fault :: "string option"

text \<open>
  The loop of \<^verbatim>\<open>SaveRequestLogsBatch\<close> over the batch: each log adds its nineteen
  values, and the statement after them prints \<^verbatim>\<open>*log.ResponseBody\<close>, which
  dereferences the pointer.
\<close>

fun batch_values :: "RequestLog list \<Rightarrow> RequestLog list \<Rightarrow> RequestLog list outcome" where
  "batch_values vals [] = Return vals"
| "batch_values vals (l # logs) =
     (case ResponseBody l of
        None \<Rightarrow> Panic ''runtime error: invalid memory address or nil pointer dereference''
      | Some _ \<Rightarrow> batch_values (vals @ [l]) logs)"

text \<open>
  \<^verbatim>\<open>SaveRequestLogsBatch\<close>: the returned error (\<open>None\<close> is nil) or a panic, and the
  database afterwards. A failed insert is rolled back by the deferred function; a panic
  leaves the transaction neither committed nor rolled back.
\<close>

definition SaveRequestLogsBatch :: "DB \<Rightarrow> RequestLog list \<Rightarrow> string option outcome \<times> DB" where
  "SaveRequestLogsBatch db logs =
     (if length logs = 0 then (Return None, db)
      else case begin_fault db of
        Some e \<Rightarrow> (Return (Some (''failed to begin transaction: '' @ e)), db)
      | None \<Rightarrow>
          (case batch_values [] logs of
             Panic p \<Rightarrow> (Panic p, db)
           | Return vals \<Rightarrow>
               (case exec_fault db of
                  Some e \<Rightarrow> (Return (Some (''failed to insert logs: '' @ e)), db)
                | None \<Rightarrow>
                    (case commit_fault db of
                       Some e \<Rightarrow> (Return (Some (''failed to commit transaction: '' @ e)), db)
                     | None \<Rightarrow> (Return None, db\<lparr>request_logs := request_logs db @ vals\<rparr>)))))"

section \<open>Guardrail types (internal/guardrails/types.go)\<close>

record Result =
  Passed :: bool
  Score :: "real option"
  Reason :: string
  Metadata :: "string \<rightharpoonup> iface"
  ModifiedContent :: "string option"

text \<open>
  The \<^verbatim>\<open>Guardrail\<close> interface. \<^verbatim>\<open>Check(ctx, content)\<close> returns an error (\<open>Inl\<close>) or a
  result; its first argument is what the check can observe of its context by the time
  it returns. An implementation honours the interface: with a nil error it returns a
  result that is not nil.
\<close>

record Guardrail =
  Name :: string
  Priority :: int
  Check :: "ctx \<Rightarrow> string \<Rightarrow> string + Result"

record Metric =
  MRequestID :: string
  GuardrailName :: string
  Layer :: string
  MPriority :: int
  StartTime :: nat
  EndTime :: nat
  DurationMs :: nat
  MPassed :: bool
  MScore :: "real option"
  MError :: "string option"
  MMetadata :: "(string \<rightharpoonup> iface) option"
  OriginalResponse :: "string option"
  OverrideResponse :: "string option"
  ResponseOverridden :: bool

record GuardrailResult =
  GName :: string
  GPriority :: int
  GResult :: "Result option"
  GDuration :: nat

record ExecutionResult =
  XPassed :: bool
  FailedGuardrail :: string
  FailureReason :: string
  Results :: "GuardrailResult option list"

record GuardrailFailure =
  FName :: string
  FPriority :: int
  FReason :: string

section \<open>The moderation guardrail (internal/guardrails/openai/moderation.go)\<close>

record ModerationGuardrail =
  name :: string
  priority :: int
  apiKey :: string
  blockOnFlag :: bool
  categories :: "string list"

record ChatMessage =
  Role :: string
  Content :: string

text \<open>
  One entry of \<^verbatim>\<open>ModerationResponse.Results\<close>. The two maps are association lists with
  distinct keys: \<^verbatim>\<open>Check\<close> iterates over \<^verbatim>\<open>Categories\<close> (in an order Go leaves open; the
  list fixes one) and stores both in the metadata.
\<close>

record ModerationResult =
  Flagged :: bool
  Categories :: "(string \<times> bool) list"
  CategoryScores :: "(string \<times> real) list"

text \<open>
  \<^verbatim>\<open>encoding/json\<close> is a library: the four \<^verbatim>\<open>json.Unmarshal\<close> calls of
  \<^verbatim>\<open>extractUserMessage\<close> are taken as functions of the content, each giving the decoding
  error or the decoded fields.
\<close>

record Unmarshal =
  chatReq :: "string \<Rightarrow> string + ChatMessage list"
  respReq :: "string \<Rightarrow> string + string"
  compReq :: "string \<Rightarrow> string + string"
  generic :: "string \<Rightarrow> string + (string \<rightharpoonup> iface)"

text \<open>
  What the moderation endpoint does with a request: the transport fails, or a response
  arrives with a status code and a body that decodes to a \<^verbatim>\<open>ModerationResponse\<close>
  (its \<^verbatim>\<open>Results\<close>) or fails to decode.
\<close>

datatype api_outcome =
    TransportError string
  | HttpResponse nat "string + ModerationResult list"

definition extractUserMessage :: "Unmarshal \<Rightarrow> string \<Rightarrow> string + string" where
  "extractUserMessage um content =
     (case (case chatReq um content of
              Inr msgs \<Rightarrow> (if length msgs > 0
                            then find (\<lambda>m. Role m = ''user'') (rev msgs) else None)
            | Inl _ \<Rightarrow> None) of
        Some m \<Rightarrow> Inr (Content m)
      | None \<Rightarrow>
     (case respReq um content of
        Inr (c # cs) \<Rightarrow> Inr (c # cs)
      | _ \<Rightarrow>
     (case compReq um content of
        Inr (c # cs) \<Rightarrow> Inr (c # cs)
      | _ \<Rightarrow>
     (case (case generic um content of
              Inr g \<Rightarrow>
                (case g ''content'' of Some (IStr s) \<Rightarrow> Some s | _ \<Rightarrow>
                (case g ''input'' of Some (IStr s) \<Rightarrow> Some s | _ \<Rightarrow>
                (case g ''prompt'' of Some (IStr s) \<Rightarrow> Some s | _ \<Rightarrow> None)))
            | Inl _ \<Rightarrow> None) of
        Some s \<Rightarrow> Inr s
      | None \<Rightarrow> Inl ''unable to extract user message from request''))))"

text \<open>
  \<^verbatim>\<open>callModerationAPI\<close>. Marshalling a request of one string field and building the
  request for a fixed method and URL cannot fail, so those two error returns have no
  branch here.
\<close>

definition callModerationAPI ::
  "ModerationGuardrail \<Rightarrow> (string \<Rightarrow> api_outcome) \<Rightarrow> string \<Rightarrow> string + ModerationResult" where
  "callModerationAPI m api text' =
     (if apiKey m = [] then Inl ''OpenAI API key not configured''
      else case api text' of
        TransportError e \<Rightarrow> Inl (''API request failed: '' @ e)
      | HttpResponse status decoded \<Rightarrow>
          (if status \<noteq> 200 then Inl (''API returned status '' @ itoa status)
           else case decoded of
             Inl e \<Rightarrow> Inl (''failed to decode response: '' @ e)
           | Inr results \<Rightarrow>
               (case results of
                  [] \<Rightarrow> Inl ''no results in moderation response''
                | r # _ \<Rightarrow> Inr r)))"

definition containsCategory :: "ModerationGuardrail \<Rightarrow> string \<Rightarrow> bool" where
  "containsCategory m category = list_ex (\<lambda>c. c = category) (categories m)"

text \<open>\<^verbatim>\<open>strings.Join(elems, ", ")\<close>.\<close>

fun Join :: "string list \<Rightarrow> string" where
  "Join [] = []"
| "Join [x] = x"
| "Join (x # y # ys) = x @ '', '' @ Join (y # ys)"

text \<open>\<^verbatim>\<open>ModerationGuardrail.Check\<close>: the error (\<open>Inl\<close>) or the result it returns.\<close>

definition moderation_Check ::
  "ModerationGuardrail \<Rightarrow> Unmarshal \<Rightarrow> (string \<Rightarrow> api_outcome) \<Rightarrow> string \<Rightarrow> string + Result" where
  "moderation_Check m um api content =
     (case extractUserMessage um content of
        Inl err \<Rightarrow>
          Inr \<lparr>Passed = True, Score = None,
               Reason = ''Failed to extract message: '' @ err,
               Metadata = [''error'' \<mapsto> IStr err, ''extraction'' \<mapsto> IStr ''failed''],
               ModifiedContent = None\<rparr>
      | Inr userMessage \<Rightarrow>
          if userMessage = [] then
            Inr \<lparr>Passed = True, Score = None,
                 Reason = ''No user message found to moderate'',
                 Metadata = [''extraction'' \<mapsto> IStr ''empty''],
                 ModifiedContent = None\<rparr>
          else
            (case callModerationAPI m api userMessage of
               Inl err \<Rightarrow>
                 Inr \<lparr>Passed = True, Score = None,
                      Reason = ''Moderation API error: '' @ err,
                      Metadata = [''error'' \<mapsto> IStr err, ''api_call'' \<mapsto> IStr ''failed'',
                                  ''user_message'' \<mapsto> IStr userMessage],
                      ModifiedContent = None\<rparr>
             | Inr moderationResult \<Rightarrow>
                 (let flagged =
                        (if length (categories m) > 0
                         then list_ex (\<lambda>category.
                                map_of (Categories moderationResult) category = Some True)
                                (categories m)
                         else Flagged moderationResult);
                      passed = (\<not> flagged \<or> \<not> blockOnFlag m);
                      metadata =
                        [''user_message'' \<mapsto> IStr userMessage,
                         ''flagged'' \<mapsto> IBool (Flagged moderationResult),
                         ''categories'' \<mapsto>
                            IMap (map (\<lambda>(k, b). (k, IBool b)) (Categories moderationResult)),
                         ''category_scores'' \<mapsto>
                            IMap (map (\<lambda>(k, x). (k, IFloat x)) (CategoryScores moderationResult)),
                         ''api_call'' \<mapsto> IStr ''success''];
                      metadata' =
                        (if length (categories m) > 0
                         then metadata(''configured_categories'' \<mapsto> IList (map IStr (categories m)),
                                       ''configured_flagged'' \<mapsto> IBool flagged)
                         else metadata);
                      reason =
                        (if flagged
                         then ''Content flagged for: '' @
                              Join (map fst (filter (\<lambda>(category, violated).
                                      violated \<and> (length (categories m) = 0 \<or> containsCategory m category))
                                    (Categories moderationResult)))
                         else ''Content passed moderation'')
                  in Inr \<lparr>Passed = passed, Score = None, Reason = reason,
                          Metadata = metadata', ModifiedContent = None\<rparr>)))"

section \<open>The guardrail executor (internal/guardrails/executor.go)\<close>

text \<open>
  What the executor does to its surroundings. \<open>written\<close> are the metrics handed to
  \<^verbatim>\<open>MetricsWriter.Write\<close>, in order (the writer then queues or drops each without
  blocking); \<open>trace\<close> records every call of a guardrail's \<^verbatim>\<open>Check\<close> and every return
  from one; \<open>tctx\<close> is the state of the context made by \<^verbatim>\<open>context.WithTimeout\<close>;
  \<open>clock\<close> is the time in milliseconds.
\<close>

datatype obs =
    Invoked string int string
  | Returned string int "string + Result"

record world =
  tctx :: ctx
  written :: "Metric list"
  trace :: "obs list"
  clock :: nat

record Executor =
  inputGuardrails :: "Guardrail list"
  outputGuardrails :: "Guardrail list"
  metricsWriter :: bool

text \<open>
  The variables the goroutines of one group share through their closure: the arguments
  of \<^verbatim>\<open>executeGroupParallel\<close>, with \<open>c_writer\<close> for \<^verbatim>\<open>e.metricsWriter != nil\<close>.
\<close>

record closure =
  c_writer :: bool
  c_requestID :: string
  c_content :: string
  c_guardrails :: "Guardrail list"
  c_layer :: string
  c_originalResponse :: "string option"
  c_overrideResponse :: "string option"

text \<open>
  A goroutine of the group is at one of three places: not yet running, inside
  \<^verbatim>\<open>guardrail.Check\<close> (with its \<^verbatim>\<open>startTime\<close>), or returned. The group's state adds
  the context derived by \<^verbatim>\<open>errgroup.WithContext\<close>, the first error the group has
  seen, the \<^verbatim>\<open>results\<close> slice and \<^verbatim>\<open>firstFailure\<close>.
\<close>

datatype task = Pending | Running nat | Finished

record gstate = world +
  gctx :: ctx
  gerr :: "string option"
  tasks :: "task list"
  results :: "GuardrailResult option list"
  firstFailure :: "GuardrailFailure option"

text \<open>
  The scheduler's choices: goroutine \<open>i\<close> starts (it reads the clock and polls the
  context), the \<^verbatim>\<open>Check\<close> of goroutine \<open>i\<close> returns and the goroutine runs to its end
  (both critical sections are short and under a mutex), or the deadline of the timeout
  context passes.
\<close>

datatype event = Start nat | Finish nat | Deadline

text \<open>
  A goroutine returns its error to the errgroup: the first error that is not nil is
  kept, and the derived context is cancelled.
\<close>

definition go_return :: "string option \<Rightarrow> 'a gstate_scheme \<Rightarrow> 'a gstate_scheme" where
  "go_return err s =
     (case err of
        None \<Rightarrow> s
      | Some e \<Rightarrow>
          (case gerr s of
             Some _ \<Rightarrow> s
           | None \<Rightarrow> s\<lparr>gerr := Some e,
                         gctx := (case gctx s of None \<Rightarrow> Some Canceled | Some c \<Rightarrow> Some c)\<rparr>))"

definition track_failure :: "Guardrail \<Rightarrow> string \<Rightarrow> 'a gstate_scheme \<Rightarrow> 'a gstate_scheme" where
  "track_failure guardrail reason s =
     (if (case firstFailure s of None \<Rightarrow> True | Some f \<Rightarrow> Priority guardrail < FPriority f)
      then s\<lparr>firstFailure :=
                Some \<lparr>FName = Name guardrail, FPriority = Priority guardrail, FReason = reason\<rparr>\<rparr>
      else s)"

definition write_metric :: "closure \<Rightarrow> Metric \<Rightarrow> 'a gstate_scheme \<Rightarrow> 'a gstate_scheme" where
  "write_metric c metric s = (if c_writer c then s\<lparr>written := written s @ [metric]\<rparr> else s)"

definition new_metric :: "closure \<Rightarrow> Guardrail \<Rightarrow> nat \<Rightarrow> nat \<Rightarrow> Metric" where
  "new_metric c guardrail startTime now =
     \<lparr>MRequestID = c_requestID c, GuardrailName = Name guardrail, Layer = c_layer c,
      MPriority = Priority guardrail, StartTime = startTime, EndTime = now,
      DurationMs = now - startTime, MPassed = False, MScore = None, MError = None,
      MMetadata = None, OriginalResponse = None, OverrideResponse = None,
      ResponseOverridden = False\<rparr>"

text \<open>
  The goroutine up to the call of \<^verbatim>\<open>Check\<close>: when the context is already done it
  returns \<^verbatim>\<open>ctx.Err()\<close> at once.
\<close>

definition task_start :: "closure \<Rightarrow> nat \<Rightarrow> 'a gstate_scheme \<Rightarrow> 'a gstate_scheme" where
  "task_start c i s =
     (if i < length (tasks s) \<and> i < length (c_guardrails c) then
        (case tasks s ! i of
           Pending \<Rightarrow>
             (case gctx s of
                Some e \<Rightarrow> go_return (Some e) (s\<lparr>tasks := (tasks s)[i := Finished]\<rparr>)
              | None \<Rightarrow>
                  (let guardrail = c_guardrails c ! i in
                   s\<lparr>tasks := (tasks s)[i := Running (clock s)],
                     trace := trace s @
                       [Invoked (Name guardrail) (Priority guardrail) (c_content c)]\<rparr>))
         | _ \<Rightarrow> s)
      else s)"

text \<open>The goroutine from the return of \<^verbatim>\<open>Check\<close> to its end.\<close>

definition task_finish :: "closure \<Rightarrow> nat \<Rightarrow> 'a gstate_scheme \<Rightarrow> 'a gstate_scheme" where
  "task_finish c i s =
     (if i < length (tasks s) \<and> i < length (c_guardrails c) then
        (case tasks s ! i of
           Running startTime \<Rightarrow>
             (let guardrail = c_guardrails c ! i;
                  out = Check guardrail (gctx s) (c_content c);
                  duration = clock s - startTime;
                  metric = new_metric c guardrail startTime (clock s);
                  s1 = s\<lparr>tasks := (tasks s)[i := Finished],
                         trace := trace s @
                           [Returned (Name guardrail) (Priority guardrail) out]\<rparr>
              in case out of
                   Inl err \<Rightarrow>
                     go_return (Some (Name guardrail @ '' failed: '' @ err))
                       (track_failure guardrail err
                         (write_metric c (metric\<lparr>MError := Some err, MPassed := False\<rparr>) s1))
                 | Inr result \<Rightarrow>
                     (let metric1 = metric\<lparr>MPassed := Passed result, MScore := Score result,
                                           MMetadata := Some (Metadata result)\<rparr>;
                          metric2 =
                            (if \<not> Passed result \<and> c_layer c = ''output''
                                \<and> c_originalResponse c \<noteq> None \<and> c_overrideResponse c \<noteq> None
                             then metric1\<lparr>OriginalResponse := c_originalResponse c,
                                          OverrideResponse := c_overrideResponse c,
                                          ResponseOverridden := True\<rparr>
                             else metric1);
                          s2 = write_metric c metric2 s1
                      in if \<not> Passed result
                         then go_return (Some (Name guardrail @ '' rejected: '' @ Reason result))
                                (track_failure guardrail (Reason result) s2)
                         else go_return None
                                (s2\<lparr>results := (results s2)[i :=
                                      Some \<lparr>GName = Name guardrail, GPriority = Priority guardrail,
                                            GResult = Some result, GDuration = duration\<rparr>]\<rparr>)))
         | _ \<Rightarrow> s)
      else s)"

text \<open>The deadline passes: the timeout context and every live context derived from it expire.\<close>

definition expire :: "'a gstate_scheme \<Rightarrow> 'a gstate_scheme" where
  "expire s =
     s\<lparr>tctx := (case tctx s of None \<Rightarrow> Some DeadlineExceeded | Some c \<Rightarrow> Some c),
       gctx := (case gctx s of None \<Rightarrow> Some DeadlineExceeded | Some c \<Rightarrow> Some c)\<rparr>"

definition step :: "closure \<Rightarrow> event \<Rightarrow> 'a gstate_scheme \<Rightarrow> 'a gstate_scheme" where
  "step c e s =
     (case e of
        Start i \<Rightarrow> task_start c i s
      | Finish i \<Rightarrow> task_finish c i s
      | Deadline \<Rightarrow> expire s)\<lparr>clock := Suc (clock s)\<rparr>"

text \<open>
  \<^verbatim>\<open>g.Wait()\<close> returns when every goroutine has returned: whatever the schedule left
  undone is run to its end, in index order.
\<close>

definition completion :: "nat \<Rightarrow> event list" where
  "completion n = concat (map (\<lambda>i. [Start i, Finish i]) [0..<n])"

definition spawn :: "nat \<Rightarrow> world \<Rightarrow> gstate" where
  "spawn n w =
     \<lparr>tctx = tctx w, written = written w, trace = trace w, clock = clock w,
      gctx = tctx w, gerr = None, tasks = replicate n Pending,
      results = replicate n None, firstFailure = None\<rparr>"

definition world_of :: "gstate \<Rightarrow> world" where
  "world_of s = \<lparr>tctx = tctx s, written = written s, trace = trace s, clock = clock s\<rparr>"

definition run_group :: "closure \<Rightarrow> event list \<Rightarrow> world \<Rightarrow> gstate" where
  "run_group c sched w =
     fold (step c) (sched @ completion (length (c_guardrails c))) (spawn (length (c_guardrails c)) w)"

text \<open>
  \<^verbatim>\<open>executeGroupParallel\<close> under a schedule: the \<^verbatim>\<open>ExecutionResult\<close>, the error it
  returns (always nil in the source) and the world afterwards.
\<close>

definition executeGroupParallel ::
  "closure \<Rightarrow> event list \<Rightarrow> world \<Rightarrow> (ExecutionResult \<times> string option) \<times> world" where
  "executeGroupParallel c sched w =
     (if length (c_guardrails c) = 0
      then ((\<lparr>XPassed = True, FailedGuardrail = [], FailureReason = [], Results = []\<rparr>, None), w)
      else
        (let s = run_group c sched w in
         case gerr s of
           Some err \<Rightarrow>
             (case firstFailure s of
                Some f \<Rightarrow>
                  ((\<lparr>XPassed = False, FailedGuardrail = FName f, FailureReason = FReason f,
                     Results = results s\<rparr>, None), world_of s)
              | None \<Rightarrow>
                  ((\<lparr>XPassed = False, FailedGuardrail = [],
                     FailureReason = ''Guardrail execution failed: '' @ err,
                     Results = results s\<rparr>, None), world_of s))
         | None \<Rightarrow>
             ((\<lparr>XPassed = True, FailedGuardrail = [], FailureReason = [],
                Results = results s\<rparr>, None), world_of s)))"

text \<open>The sorted keys of \<^verbatim>\<open>priorityGroups\<close>.\<close>

definition priorities :: "Guardrail list \<Rightarrow> int list" where
  "priorities gs = sort (remdups (map Priority gs))"

text \<open>
  The loop that looks for a modification among per-guardrail results (in
  \<^verbatim>\<open>executeParallel\<close> after a group has passed, and in \<^verbatim>\<open>ServeHTTP\<close> after the input
  layer has passed): the first result that is not nil, has a \<^verbatim>\<open>Result\<close> and carries a
  \<^verbatim>\<open>ModifiedContent\<close> ends the loop.
\<close>

fun first_modified :: "GuardrailResult option list \<Rightarrow> string option" where
  "first_modified [] = None"
| "first_modified (r # rs) =
     (case r of
        None \<Rightarrow> first_modified rs
      | Some result \<Rightarrow>
          (case GResult result of
             None \<Rightarrow> first_modified rs
           | Some res \<Rightarrow>
               (case ModifiedContent res of
                  None \<Rightarrow> first_modified rs
                | Some m \<Rightarrow> Some m)))"

definition next_content :: "string \<Rightarrow> GuardrailResult option list \<Rightarrow> string" where
  "next_content currentContent rs =
     (case first_modified rs of None \<Rightarrow> currentContent | Some m \<Rightarrow> m)"

text \<open>
  The loop of \<^verbatim>\<open>executeParallel\<close> over the sorted priorities. \<open>scheds\<close> gives the
  schedule of each group in turn (none left: the goroutines run in index order).
\<close>

fun run_groups ::
  "closure \<Rightarrow> int list \<Rightarrow> event list list \<Rightarrow> string \<Rightarrow> GuardrailResult option list \<Rightarrow> world
     \<Rightarrow> (ExecutionResult \<times> string option) \<times> world" where
  "run_groups c [] scheds currentContent allResults w =
     ((\<lparr>XPassed = True, FailedGuardrail = [], FailureReason = [], Results = allResults\<rparr>, None), w)"
| "run_groups c (prio # ps) scheds currentContent allResults w =
     (let groupGuardrails = filter (\<lambda>g. Priority g = prio) (c_guardrails c) in
      case executeGroupParallel (c\<lparr>c_content := currentContent, c_guardrails := groupGuardrails\<rparr>)
             (case scheds of [] \<Rightarrow> [] | sched # _ \<Rightarrow> sched) w of
        ((groupResult, Some err), w') \<Rightarrow>
          ((\<lparr>XPassed = False, FailedGuardrail = [],
             FailureReason = ''Group execution failed: '' @ err, Results = allResults\<rparr>, None), w')
      | ((groupResult, None), w') \<Rightarrow>
          if \<not> XPassed groupResult
          then ((\<lparr>XPassed = False, FailedGuardrail = FailedGuardrail groupResult,
                  FailureReason = FailureReason groupResult,
                  Results = allResults @ Results groupResult\<rparr>, None), w')
          else run_groups c ps (tl scheds)
                 (next_content currentContent (Results groupResult))
                 (allResults @ Results groupResult) w')"

text \<open>
  \<^verbatim>\<open>executeParallel\<close>. \<open>ctx\<close> is the state of the caller's context, from which the
  timeout context is derived.
\<close>

definition executeParallel ::
  "Executor \<Rightarrow> ctx \<Rightarrow> string \<Rightarrow> string \<Rightarrow> Guardrail list \<Rightarrow> string \<Rightarrow> string option \<Rightarrow> string option
     \<Rightarrow> event list list \<Rightarrow> world \<Rightarrow> (ExecutionResult \<times> string option) \<times> world" where
  "executeParallel e ctx requestID content gs layer orig over scheds w =
     (if length gs = 0
      then ((\<lparr>XPassed = True, FailedGuardrail = [], FailureReason = [], Results = []\<rparr>, None), w)
      else run_groups
             \<lparr>c_writer = metricsWriter e, c_requestID = requestID, c_content = content, c_guardrails = gs,
              c_layer = layer, c_originalResponse = orig, c_overrideResponse = over\<rparr>
             (priorities gs) scheds content [] (w\<lparr>tctx := ctx\<rparr>))"

definition ExecuteInput ::
  "Executor \<Rightarrow> ctx \<Rightarrow> string \<Rightarrow> string \<Rightarrow> event list list \<Rightarrow> world
     \<Rightarrow> (ExecutionResult \<times> string option) \<times> world" where
  "ExecuteInput e ctx requestID content scheds w =
     executeParallel e ctx requestID content (inputGuardrails e) ''input'' None None scheds w"

definition ExecuteOutput ::
  "Executor \<Rightarrow> ctx \<Rightarrow> string \<Rightarrow> string \<Rightarrow> event list list \<Rightarrow> world
     \<Rightarrow> (ExecutionResult \<times> string option) \<times> world" where
  "ExecuteOutput e ctx requestID content scheds w =
     executeParallel e ctx requestID content (outputGuardrails e) ''output'' None None scheds w"

definition ExecuteOutputWithResponses ::
  "Executor \<Rightarrow> ctx \<Rightarrow> string \<Rightarrow> string \<Rightarrow> string \<Rightarrow> string \<Rightarrow> event list list \<Rightarrow> world
     \<Rightarrow> (ExecutionResult \<times> string option) \<times> world" where
  "ExecuteOutputWithResponses e ctx requestID content orig over scheds w =
     executeParallel e ctx requestID content (outputGuardrails e) ''output'' (Some orig) (Some over) scheds w"

section \<open>The response builder (internal/handlers/guardrail_response.go)\<close>

definition BlockedMessage :: string where
  "BlockedMessage = ''I cannot service this request''"

text \<open>
  The two documents, as the \<^verbatim>\<open>map[string]interface{}\<close> literals of the source.
  \<open>uuid\<close> is the text of \<^verbatim>\<open>uuid.New().String()\<close> and \<open>now\<close> is
  \<^verbatim>\<open>time.Now().Unix()\<close>.
\<close>

definition chat_completion_doc :: "string \<Rightarrow> int \<Rightarrow> iface" where
  "chat_completion_doc uuid now =
     IMap [(''id'', IStr (''chatcmpl-blocked-'' @ take 8 uuid)),
           (''object'', IStr ''chat.completion''),
           (''created'', IInt now),
           (''model'', IStr ''gpt-3.5-turbo''),
           (''choices'', IList [IMap
              [(''index'', IInt 0),
               (''message'', IMap [(''role'', IStr ''assistant''),
                                   (''content'', IStr ''I cannot service this request''),
                                   (''refusal'', INil)]),
               (''logprobs'', INil),
               (''finish_reason'', IStr ''stop'')]]),
           (''usage'', IMap [(''prompt_tokens'', IInt 0),
                             (''completion_tokens'', IInt 6),
                             (''total_tokens'', IInt 6)]),
           (''system_fingerprint'', IStr ''fp_guardrail_blocked'')]"

definition legacy_completion_doc :: "string \<Rightarrow> int \<Rightarrow> iface" where
  "legacy_completion_doc uuid now =
     IMap [(''id'', IStr (''cmpl-blocked-'' @ take 8 uuid)),
           (''object'', IStr ''text_completion''),
           (''created'', IInt now),
           (''model'', IStr ''gpt-3.5-turbo''),
           (''choices'', IList [IMap
              [(''text'', IStr ''I cannot service this request''),
               (''index'', IInt 0),
               (''logprobs'', INil),
               (''finish_reason'', IStr ''stop'')]]),
           (''usage'', IMap [(''prompt_tokens'', IInt 0),
                             (''completion_tokens'', IInt 6),
                             (''total_tokens'', IInt 6)])]"

text \<open>
  What a request handler takes from outside the repository: \<^verbatim>\<open>json.Marshal\<close> (which
  cannot fail on documents of strings, integers, nil, lists and string-keyed maps), the
  next UUID, the Unix time, gzip decompression (\<open>None\<close>: the data does not
  decompress), a fresh request identifier, and the schedules under which the executor's
  goroutines run in the three executor calls of \<^verbatim>\<open>ServeHTTP\<close>.
\<close>

record env =
  json_Marshal :: "iface \<Rightarrow> string"
  new_uuid :: string
  unix_now :: int
  gunzip :: "string \<Rightarrow> string option"
  fresh_request_id :: string
  sched_input :: "event list list"
  sched_output :: "event list list"
  sched_metrics :: "event list list"

definition buildChatCompletionResponse :: "env \<Rightarrow> string + string" where
  "buildChatCompletionResponse env =
     Inr (json_Marshal env (chat_completion_doc (new_uuid env) (unix_now env)))"

definition buildLegacyCompletionResponse :: "env \<Rightarrow> string + string" where
  "buildLegacyCompletionResponse env =
     Inr (json_Marshal env (legacy_completion_doc (new_uuid env) (unix_now env)))"

definition BuildResponse :: "env \<Rightarrow> string \<Rightarrow> string + string" where
  "BuildResponse env endpoint =
     (if endpoint = ''/v1/chat/completions'' then buildChatCompletionResponse env
      else if endpoint = ''/v1/completions'' then buildLegacyCompletionResponse env
      else if endpoint = ''/v1/responses'' then buildChatCompletionResponse env
      else buildChatCompletionResponse env)"

section \<open>The proxy handler (internal/handlers/proxy.go)\<close>

record EndpointConfig =
  Path :: string
  Methods :: "string list"
  EndpointHeaders :: "string \<rightharpoonup> string"
  Timeout :: int

record Response =
  RStatusCode :: nat
  RHeader :: header
  RBody :: ReadCloser

text \<open>
  A provider: its configuration (the endpoints it advertises, each with its methods)
  and what \<^verbatim>\<open>ProxyRequest\<close> returns for a request: an error or the upstream response.
\<close>

record Provider =
  GetName :: string
  Endpoints :: "EndpointConfig list"
  ProxyRequest :: "Request \<Rightarrow> string + Response"

definition SupportedEndpoints :: "Provider \<Rightarrow> string list" where
  "SupportedEndpoints p = map Path (Endpoints p)"

record ProxyHandler =
  providers :: "string \<rightharpoonup> Provider"
  routes :: "string \<rightharpoonup> string"
  guardrailExecutor :: "Executor option"

definition NewProxyHandler :: ProxyHandler where
  "NewProxyHandler = \<lparr>providers = Map.empty, routes = Map.empty, guardrailExecutor = None\<rparr>"

definition SetGuardrailExecutor :: "ProxyHandler \<Rightarrow> Executor \<Rightarrow> ProxyHandler" where
  "SetGuardrailExecutor h executor = h\<lparr>guardrailExecutor := Some executor\<rparr>"

definition RegisterProvider :: "ProxyHandler \<Rightarrow> Provider \<Rightarrow> ProxyHandler" where
  "RegisterProvider h provider =
     h\<lparr>providers := (providers h)(GetName provider \<mapsto> provider),
       routes := fold (\<lambda>endpoint rt. rt(endpoint \<mapsto> GetName provider))
                   (SupportedEndpoints provider) (routes h)\<rparr>"

text \<open>
  \<^verbatim>\<open>isMethodAllowed\<close>: the source compares the upper-cased method with a fixed list and
  does not read the endpoint or the provider.
\<close>

definition isMethodAllowed :: "string \<Rightarrow> string \<Rightarrow> Provider \<Rightarrow> bool" where
  "isMethodAllowed endpoint method provider =
     list_ex (\<lambda>allowed. ToUpper method = allowed) [''GET'', ''POST'', ''PUT'', ''DELETE'', ''PATCH'']"

definition getRequestIDFromContext :: "env \<Rightarrow> Request \<Rightarrow> string" where
  "getRequestIDFromContext env r =
     (case request_id r of Some requestID \<Rightarrow> requestID | None \<Rightarrow> fresh_request_id env)"

text \<open>
  \<^verbatim>\<open>returnGuardrailError\<close>: the encoder writes the document and a newline. The
  \<^verbatim>\<open>guardrail\<close> key is set only for a name that is not empty.
\<close>

definition returnGuardrailError ::
  "env \<Rightarrow> ResponseWriter \<Rightarrow> string \<Rightarrow> string \<Rightarrow> string \<Rightarrow> nat \<Rightarrow> ResponseWriter" where
  "returnGuardrailError env w errorType message guardrailName statusCode =
     Write (json_Marshal env
              (IMap ([(''error'', IStr errorType), (''message'', IStr message)]
                     @ (if guardrailName \<noteq> [] then [(''guardrail'', IStr guardrailName)] else [])
                     @ [(''status'', IStr ''blocked''),
                        (''timestamp'', IStr ''2024-01-01T00:00:00Z'')]))
            @ [CHR 0x0A])
       (WriteHeader statusCode
          (w\<lparr>WHeader := hSet (WHeader w) ''Content-Type'' ''application/json''\<rparr>))"

definition corsHeaders :: "string \<Rightarrow> bool" where
  "corsHeaders k =
     (k \<in> set [''Access-Control-Allow-Origin'', ''Access-Control-Allow-Methods'',
                ''Access-Control-Allow-Headers'', ''Access-Control-Max-Age'',
                ''Access-Control-Allow-Credentials'', ''Access-Control-Expose-Headers''])"

text \<open>
  The loop that copies the upstream headers into the response writer's: for each key
  the values are taken in order, with \<^verbatim>\<open>Set\<close> for a CORS header (the last value stays)
  and \<^verbatim>\<open>Add\<close> for any other. The keys are independent, so the order in which Go
  iterates over the map does not show.
\<close>

definition copy_headers :: "header \<Rightarrow> header \<Rightarrow> header" where
  "copy_headers src dst =
     (\<lambda>key. case src key of
        None \<Rightarrow> dst key
      | Some values \<Rightarrow>
          (if values = [] then dst key
           else if corsHeaders key then Some [last values]
           else Some ((case dst key of None \<Rightarrow> [] | Some vs \<Rightarrow> vs) @ values)))"

definition read_all :: "ReadCloser \<Rightarrow> string + string" where
  "read_all b = (case b of Body s \<Rightarrow> Inr s | Broken e \<Rightarrow> Inl e)"

definition body_method :: "string \<Rightarrow> bool" where
  "body_method m = (m = ''POST'' \<or> m = ''PUT'' \<or> m = ''PATCH'')"

text \<open>\<^verbatim>\<open>GuardrailBlockContext\<close> (internal/handlers/guardrail_response.go).\<close>

record GuardrailBlockContext =
  Blocked :: bool
  BlockLayer :: string
  BlockGuardrailName :: string
  BlockGuardrailReason :: string
  BlockOriginalResponse :: "string option"
  BlockOverrideResponse :: string

text \<open>
  What one call of a handler leaves behind: the response writer, the requests handed to
  a provider's \<^verbatim>\<open>ProxyRequest\<close>, the executor's world, and the block context that
  \<^verbatim>\<open>ServeHTTP\<close> builds and attaches to its request when a guardrail blocks
  (\<open>None\<close>: no block context was built).
\<close>

record exchange =
  Client :: ResponseWriter
  Upstream :: "Request list"
  World :: world
  Block :: "GuardrailBlockContext option"

text \<open>
  \<^verbatim>\<open>ServeHTTP\<close> is one function in the source; the model names its three parts. This
  is the last one, from the upstream response on: read the body, decompress a copy for
  the guardrails, run the output guardrails, and write either the refusal or the
  upstream bytes.
\<close>

definition serve_response ::
  "ProxyHandler \<Rightarrow> env \<Rightarrow> ResponseWriter \<Rightarrow> Request \<Rightarrow> string \<Rightarrow> Response \<Rightarrow> world \<Rightarrow> exchange" where
  "serve_response h env w r requestID resp wd =
     (case read_all (RBody resp) of
        Inl err \<Rightarrow>
          \<lparr>Client = http_Error w ''Error reading response body'' 500, Upstream = [r], World = wd, Block = None\<rparr>
      | Inr body \<Rightarrow>
          (let originalResponseBody = body;
               contentEncoding = hGet (RHeader resp) ''Content-Encoding'';
               responseBody =
                 (if Contains (ToLower contentEncoding) ''gzip''
                  then (case gunzip env body of Some decompressed \<Rightarrow> decompressed | None \<Rightarrow> body)
                  else body);
               pass = (\<lambda>wd'.
                 \<lparr>Client = Write originalResponseBody
                     (WriteHeader (RStatusCode resp)
                        (w\<lparr>WHeader := copy_headers (RHeader resp) (WHeader w)\<rparr>)),
                  Upstream = [r], World = wd', Block = None\<rparr>)
           in case guardrailExecutor h of
                None \<Rightarrow> pass wd
              | Some executor \<Rightarrow>
                  if length responseBody > 0 then
                    (case ExecuteOutput executor (ReqCtx r) requestID responseBody
                            (sched_output env) wd of
                       ((result, Some err), wd') \<Rightarrow>
                         \<lparr>Client = returnGuardrailError env w ''output_guardrails_error''
                                     ''Failed to execute output guardrails'' [] 500,
                          Upstream = [r], World = wd', Block = None\<rparr>
                     | ((result, None), wd') \<Rightarrow>
                         if \<not> XPassed result then
                           (case BuildResponse env (URLPath r) of
                              Inl err \<Rightarrow>
                                \<lparr>Client = http_Error w ''Internal server error'' 500,
                                 Upstream = [r], World = wd', Block = None\<rparr>
                            | Inr overrideResponse \<Rightarrow>
                                (let wd'' = snd (ExecuteOutputWithResponses executor (ReqCtx r)
                                                  requestID responseBody originalResponseBody
                                                  overrideResponse (sched_metrics env) wd')
                                 in \<lparr>Client = Write overrideResponse
                                        (WriteHeader 200
                                           (w\<lparr>WHeader :=
                                                hSet (hSet (copy_headers (RHeader resp) (WHeader w))
                                                        ''Content-Length''
                                                        (itoa (length overrideResponse)))
                                                  ''Content-Type'' ''application/json''\<rparr>)),
                                     Upstream = [r], World = wd'',
                                     Block = Some
                                       \<lparr>Blocked = True, BlockLayer = ''output'',
                                        BlockGuardrailName = FailedGuardrail result,
                                        BlockGuardrailReason = FailureReason result,
                                        BlockOriginalResponse = Some originalResponseBody,
                                        BlockOverrideResponse = overrideResponse\<rparr>\<rparr>))
                         else pass wd')
                  else pass wd))"

text \<open>
  The middle part: run the input guardrails on the buffered body, then write the refusal
  or hand the request (with the first modified content as its body, if there is one) to
  the provider.
\<close>

definition serve_request ::
  "ProxyHandler \<Rightarrow> env \<Rightarrow> ResponseWriter \<Rightarrow> Request \<Rightarrow> string \<Rightarrow> string \<Rightarrow> Provider \<Rightarrow> world
     \<Rightarrow> exchange" where
  "serve_request h env w r requestID requestBody provider wd =
     (let forward = (\<lambda>r' wd'.
            case ProxyRequest provider r' of
              Inl err \<Rightarrow>
                \<lparr>Client = http_Error w ''Proxy request failed'' 502, Upstream = [r'], World = wd', Block = None\<rparr>
            | Inr resp \<Rightarrow> serve_response h env w r' requestID resp wd')
      in case guardrailExecutor h of
           None \<Rightarrow> forward r wd
         | Some executor \<Rightarrow>
             if length requestBody > 0 then
               (case ExecuteInput executor (ReqCtx r) requestID requestBody (sched_input env) wd of
                  ((result, Some err), wd') \<Rightarrow>
                    \<lparr>Client = returnGuardrailError env w ''input_guardrails_error''
                                ''Failed to execute input guardrails'' [] 500,
                     Upstream = [], World = wd', Block = None\<rparr>
                | ((result, None), wd') \<Rightarrow>
                    if \<not> XPassed result then
                      (case BuildResponse env (URLPath r) of
                         Inl err \<Rightarrow>
                           \<lparr>Client = http_Error w ''Internal server error'' 500,
                            Upstream = [], World = wd', Block = None\<rparr>
                       | Inr overrideResponse \<Rightarrow>
                           \<lparr>Client = Write overrideResponse
                              (WriteHeader 200
                                 (w\<lparr>WHeader := hSet (WHeader w) ''Content-Type'' ''application/json''\<rparr>)),
                            Upstream = [], World = wd',
                            Block = Some
                              \<lparr>Blocked = True, BlockLayer = ''input'',
                               BlockGuardrailName = FailedGuardrail result,
                               BlockGuardrailReason = FailureReason result,
                               BlockOriginalResponse = None,
                               BlockOverrideResponse = overrideResponse\<rparr>\<rparr>)
                    else
                      (case first_modified (Results result) of
                         Some modifiedBody \<Rightarrow> forward (r\<lparr>ReqBody := Some (Body modifiedBody)\<rparr>) wd'
                       | None \<Rightarrow> forward r wd'))
             else forward r wd)"

definition ServeHTTP :: "ProxyHandler \<Rightarrow> env \<Rightarrow> ResponseWriter \<Rightarrow> Request \<Rightarrow> world \<Rightarrow> exchange" where
  "ServeHTTP h env w r wd =
     (case routes h (URLPath r) of
        None \<Rightarrow>
          \<lparr>Client = http_Error w (''Endpoint '' @ URLPath r @ '' not found'') 404,
           Upstream = [], World = wd, Block = None\<rparr>
      | Some providerName \<Rightarrow>
          (case providers h providerName of
             None \<Rightarrow>
               \<lparr>Client = http_Error w (''Provider '' @ providerName @ '' not available'') 500,
                Upstream = [], World = wd, Block = None\<rparr>
           | Some provider \<Rightarrow>
               if \<not> isMethodAllowed (URLPath r) (Method r) provider then
                 \<lparr>Client = http_Error w (''Method '' @ Method r @ '' not allowed for endpoint ''
                                           @ URLPath r) 405,
                  Upstream = [], World = wd, Block = None\<rparr>
               else
                 (let requestID = getRequestIDFromContext env r in
                  case ReqBody r of
                    Some b \<Rightarrow>
                      if body_method (Method r) then
                        (case read_all b of
                           Inl err \<Rightarrow>
                             \<lparr>Client = http_Error w ''Error reading request body'' 400,
                              Upstream = [], World = wd, Block = None\<rparr>
                         | Inr bodyBytes \<Rightarrow>
                             serve_request h env w (r\<lparr>ReqBody := Some (Body bodyBytes)\<rparr>)
                               requestID bodyBytes provider wd)
                      else serve_request h env w r requestID [] provider wd
                  | None \<Rightarrow> serve_request h env w r requestID [] provider wd)))"

section \<open>The capture middleware (internal/middleware/capture.go)\<close>

record CaptureConfig =
  Writer :: bool
  MaxBodySize :: int
  SkipHealthCheck :: bool

record CaptureMiddleware =
  log_writer :: bool
  maxBodySize :: int
  sensitive :: "string \<Rightarrow> bool"
  skipHealthCheck :: bool

definition NewCaptureMiddleware :: "CaptureConfig \<Rightarrow> CaptureMiddleware" where
  "NewCaptureMiddleware config =
     \<lparr>log_writer = Writer config,
      maxBodySize = (if MaxBodySize config \<le> 0 then 6400 * 1024 else MaxBodySize config),
      sensitive = sensitiveHeaders,
      skipHealthCheck = SkipHealthCheck config\<rparr>"

text \<open>What \<^verbatim>\<open>Capture\<close> reads from the clock and the UUID generator.\<close>

record stamps =
  log_id :: string
  minted_request_id :: string
  started :: nat
  finished :: nat

text \<open>
  \<^verbatim>\<open>Capture(next)\<close>: the exchange of the wrapped handler and the log handed to
  \<^verbatim>\<open>WriteLog\<close> (\<open>None\<close>: the request is passed through without capture). The capture
  writer sees the chunks the handler writes; the response writer has no status line
  when the middleware is entered.
\<close>

definition Capture ::
  "CaptureMiddleware \<Rightarrow> env \<Rightarrow> stamps \<Rightarrow> (ResponseWriter \<Rightarrow> Request \<Rightarrow> world \<Rightarrow> exchange)
     \<Rightarrow> ResponseWriter \<Rightarrow> Request \<Rightarrow> world \<Rightarrow> exchange \<times> RequestLog option" where
  "Capture c env st next w r wd =
     (if \<not> log_writer c then (next w r wd, None)
      else if skipHealthCheck c \<and> (URLPath r = ''/health'' \<or> URLPath r = ''/status'')
        then (next w r wd, None)
      else
        (let requestID = minted_request_id st;
             sessionID = extractSessionID r;
             captured =
               (case ReqBody r of
                  Some b \<Rightarrow>
                    if body_method (Method r) then
                      (case captureBody b (maxBodySize c) of
                         Inr body \<Rightarrow> Some body
                       | Inl err \<Rightarrow> None)
                    else None
                | None \<Rightarrow> None);
             requestBody = (case captured of Some body \<Rightarrow> body | None \<Rightarrow> []);
             r1 = (case captured of
                     Some body \<Rightarrow> r\<lparr>ReqBody := Some (Body requestBody)\<rparr>
                   | None \<Rightarrow> r);
             r2 = r1\<lparr>request_id := Some requestID\<rparr>;
             ex = next w r2 wd;
             statusCode = client_status (Client ex);
             captureBuffer =
               fold (\<lambda>data body. capture_write (maxBodySize c) body data)
                 (drop (length (WWrites w)) (WWrites (Client ex))) [];
             contentEncoding = hGet (WHeader (Client ex)) ''Content-Encoding'';
             responseBody =
               (if Contains (ToLower contentEncoding) ''gzip''
                then (case gunzip env captureBuffer of
                        Some decompressed \<Rightarrow> decompressed
                      | None \<Rightarrow> captureBuffer)
                else captureBuffer);
             requestLog =
               \<lparr>ID = log_id st, Timestamp = started st,
                SessionID = (if sessionID \<noteq> [] then Some sessionID else None),
                RequestID = requestID, Endpoint = URLPath r, LogMethod = Method r,
                StatusCode = Some statusCode,
                LatencyMs = Some (finished st - started st),
                Provider = (if extractProvider (URLPath r) \<noteq> []
                            then Some (extractProvider (URLPath r)) else None),
                UserAgent = Some (hGet (Header r) ''User-Agent''),
                LogRemoteAddr = Some (RemoteAddr r),
                RequestHeaders = Some (captureHeaders (sensitive c) (Header r)),
                RequestBody = captured,
                ResponseHeaders = Some (captureHeaders (sensitive c) (WHeader (Client ex))),
                ResponseBody = (if length captureBuffer > 0 then Some responseBody else None),
                Error = None,
                LogMetadata = Some
                  [''request_size'' \<mapsto> IInt (int (length requestBody)),
                   ''response_size'' \<mapsto> IInt (int (length captureBuffer)),
                   ''content_type'' \<mapsto> IStr (hGet (Header r) ''Content-Type'')]\<rparr>
         in (ex, Some requestLog)))"

section \<open>Concrete configurations\<close>

text \<open>
  A gateway with one provider that advertises \<^verbatim>\<open>POST /v1/chat/completions\<close> only, as
  in the repository's example configuration, and whose upstream answers every request
  with the given status and body.
\<close>

definition openai_provider :: "nat \<Rightarrow> string \<Rightarrow> Provider" where
  "openai_provider status body =
     \<lparr>GetName = ''openai'',
      Endpoints = [\<lparr>Path = ''/v1/chat/completions'', Methods = [''POST''],
                    EndpointHeaders = Map.empty, Timeout = 60\<rparr>],
      ProxyRequest = (\<lambda>r. Inr \<lparr>RStatusCode = status, RHeader = Map.empty, RBody = Body body\<rparr>)\<rparr>"

definition gateway :: "nat \<Rightarrow> string \<Rightarrow> ProxyHandler" where
  "gateway status body = RegisterProvider NewProxyHandler (openai_provider status body)"

definition plain_env :: env where
  "plain_env =
     \<lparr>json_Marshal = (\<lambda>d. ''{}''), new_uuid = ''123e4567-e89b-12d3-a456-426614174000'',
      unix_now = 1700000000, gunzip = (\<lambda>s. None), fresh_request_id = ''req-0'',
      sched_input = [], sched_output = [], sched_metrics = []\<rparr>"

definition chat_request :: "string \<Rightarrow> ReadCloser option \<Rightarrow> Request" where
  "chat_request m b =
     \<lparr>Method = m, URLPath = ''/v1/chat/completions'', Header = Map.empty, ReqBody = b,
      RemoteAddr = ''10.0.0.1:5000'', ReqCtx = None, request_id = None\<rparr>"

definition blank_writer :: ResponseWriter where
  "blank_writer = \<lparr>WHeader = Map.empty, WStatus = None, WWrites = []\<rparr>"

definition idle_world :: world where
  "idle_world = \<lparr>tctx = None, written = [], trace = [], clock = 0\<rparr>"

definition capture4 :: CaptureMiddleware where
  "capture4 = NewCaptureMiddleware \<lparr>Writer = True, MaxBodySize = 4, SkipHealthCheck = True\<rparr>"

definition stamps0 :: stamps where
  "stamps0 = \<lparr>log_id = ''log-0'', minted_request_id = ''req-1'', started = 0, finished = 5\<rparr>"

definition healthy_db :: DB where
  "healthy_db = \<lparr>request_logs = [], begin_fault = None, exec_fault = None, commit_fault = None\<rparr>"

section \<open>Vocabulary of the properties\<close>

text \<open>Reading a JSON document: a member of an object, an element of an array.\<close>

definition member :: "iface \<Rightarrow> string \<Rightarrow> iface" where
  "member v k =
     (case v of
        IMap kvs \<Rightarrow> (case map_of kvs k of Some x \<Rightarrow> x | None \<Rightarrow> INil)
      | _ \<Rightarrow> INil)"

definition element :: "iface \<Rightarrow> nat \<Rightarrow> iface" where
  "element v i =
     (case v of
        IList xs \<Rightarrow> (if i < length xs then xs ! i else INil)
      | _ \<Rightarrow> INil)"

text \<open>
  The two response shapes in the words of the specification (section 4.F): what a
  client of the endpoint reads from a refusal.
\<close>

definition chat_completion_shape :: "iface \<Rightarrow> bool" where
  "chat_completion_shape d =
     ((\<exists>rest. member d ''id'' = IStr (''chatcmpl-blocked-'' @ rest))
      \<and> member d ''object'' = IStr ''chat.completion''
      \<and> (\<exists>model. member d ''model'' = IStr model)
      \<and> (\<exists>created. member d ''created'' = IInt created)
      \<and> (\<exists>choice. member d ''choices'' = IList [choice])
      \<and> member (member (element (member d ''choices'') 0) ''message'') ''role'' = IStr ''assistant''
      \<and> member (member (element (member d ''choices'') 0) ''message'') ''content''
            = IStr ''I cannot service this request''
      \<and> member (element (member d ''choices'') 0) ''finish_reason'' = IStr ''stop''
      \<and> member (member d ''usage'') ''prompt_tokens'' = IInt 0
      \<and> (\<exists>n. member (member d ''usage'') ''completion_tokens'' = IInt n))"

definition legacy_completion_shape :: "iface \<Rightarrow> bool" where
  "legacy_completion_shape d =
     ((\<exists>rest. member d ''id'' = IStr (''cmpl-blocked-'' @ rest))
      \<and> member d ''object'' = IStr ''text_completion''
      \<and> (\<exists>choice. member d ''choices'' = IList [choice])
      \<and> member (element (member d ''choices'') 0) ''text'' = IStr ''I cannot service this request'')"

text \<open>
  The failures of the moderation endpoint: no response at all, a status other than 200,
  a body that does not decode, or a decoded response without results.
\<close>

definition api_failure :: "api_outcome \<Rightarrow> bool" where
  "api_failure out =
     (case out of
        TransportError e \<Rightarrow> True
      | HttpResponse status decoded \<Rightarrow>
          (status \<noteq> 200 \<or> (case decoded of Inl e \<Rightarrow> True | Inr rs \<Rightarrow> rs = [])))"

text \<open>Configurations of the moderation guardrail and of what surrounds it.\<close>

definition moderation0 :: ModerationGuardrail where
  "moderation0 =
     \<lparr>name = ''moderation'', priority = 0, apiKey = ''sk-test'', blockOnFlag = True,
      categories = []\<rparr>"

definition not_json :: Unmarshal where
  "not_json =
     \<lparr>chatReq = (\<lambda>c. Inl ''invalid character''), respReq = (\<lambda>c. Inl ''invalid character''),
      compReq = (\<lambda>c. Inl ''invalid character''), generic = (\<lambda>c. Inl ''invalid character'')\<rparr>"

definition chat_json :: Unmarshal where
  "chat_json =
     \<lparr>chatReq = (\<lambda>c. Inr [\<lparr>Role = ''user'', Content = ''hi''\<rparr>]), respReq = (\<lambda>c. Inr []),
      compReq = (\<lambda>c. Inr []), generic = (\<lambda>c. Inr Map.empty)\<rparr>"

definition api_down :: "string \<Rightarrow> api_outcome" where
  "api_down text' = TransportError ''connection refused''"

text \<open>Guardrails that always pass, always reject, and rewrite the content.\<close>

definition allow_guardrail :: "string \<Rightarrow> int \<Rightarrow> Guardrail" where
  "allow_guardrail n p =
     \<lparr>Name = n, Priority = p,
      Check = (\<lambda>c content. Inr \<lparr>Passed = True, Score = None, Reason = ''ok'',
                                   Metadata = Map.empty, ModifiedContent = None\<rparr>)\<rparr>"

definition deny_guardrail :: "string \<Rightarrow> int \<Rightarrow> Guardrail" where
  "deny_guardrail n p =
     \<lparr>Name = n, Priority = p,
      Check = (\<lambda>c content. Inr \<lparr>Passed = False, Score = None, Reason = ''bad'',
                                   Metadata = Map.empty, ModifiedContent = None\<rparr>)\<rparr>"

definition rewrite_guardrail :: "string \<Rightarrow> int \<Rightarrow> string \<Rightarrow> Guardrail" where
  "rewrite_guardrail n p new =
     \<lparr>Name = n, Priority = p,
      Check = (\<lambda>c content. Inr \<lparr>Passed = True, Score = None, Reason = ''rewritten'',
                                   Metadata = Map.empty, ModifiedContent = Some new\<rparr>)\<rparr>"

definition with_input_guardrails :: "ProxyHandler \<Rightarrow> Guardrail list \<Rightarrow> ProxyHandler" where
  "with_input_guardrails h gs =
     SetGuardrailExecutor h \<lparr>inputGuardrails = gs, outputGuardrails = [], metricsWriter = True\<rparr>"

definition with_output_guardrails :: "ProxyHandler \<Rightarrow> Guardrail list \<Rightarrow> ProxyHandler" where
  "with_output_guardrails h gs =
     SetGuardrailExecutor h \<lparr>inputGuardrails = [], outputGuardrails = gs, metricsWriter = True\<rparr>"

text \<open>
  An upstream that answers with a gzip-encoded body, an environment that can decompress
  it, and a gateway in front of that upstream with one output guardrail that rejects.
\<close>

definition gzip_provider :: Provider where
  "gzip_provider =
     \<lparr>GetName = ''openai'',
      Endpoints = [\<lparr>Path = ''/v1/chat/completions'', Methods = [''POST''],
                    EndpointHeaders = Map.empty, Timeout = 60\<rparr>],
      ProxyRequest = (\<lambda>r. Inr \<lparr>RStatusCode = 200,
                                  RHeader = [''Content-Encoding'' \<mapsto> [''gzip'']],
                                  RBody = Body ''<gzip bytes>''\<rparr>)\<rparr>"

definition gzip_env :: env where
  "gzip_env =
     plain_env\<lparr>gunzip := (\<lambda>s. if s = ''<gzip bytes>'' then Some ''unsafe text'' else None)\<rparr>"

definition gzip_gateway :: ProxyHandler where
  "gzip_gateway =
     with_output_guardrails (RegisterProvider NewProxyHandler gzip_provider)
       [deny_guardrail ''deny'' 0]"

section \<open>Vocabulary of the executor's properties\<close>

text \<open>
  Reading a trace of guardrail calls: a check fails when it returns an error or a
  result that is not passed; its reason is the error text or the result's reason.
\<close>

definition failing :: "string + Result \<Rightarrow> bool" where
  "failing out = (case out of Inl err \<Rightarrow> True | Inr res \<Rightarrow> \<not> Passed res)"

definition reason_of :: "string + Result \<Rightarrow> string" where
  "reason_of out = (case out of Inl err \<Rightarrow> err | Inr res \<Rightarrow> Reason res)"

fun obs_priority :: "obs \<Rightarrow> int" where
  "obs_priority (Invoked n p c) = p"
| "obs_priority (Returned n p out) = p"


text \<open>
  The checks that returned, in order: guardrail name, priority and whether the check
  passed; and the same three fields of a metric.
\<close>

fun returned_keys :: "obs list \<Rightarrow> (string \<times> int \<times> bool) list" where
  "returned_keys [] = []"
| "returned_keys (Invoked n p c # tr) = returned_keys tr"
| "returned_keys (Returned n p out # tr) = (n, p, \<not> failing out) # returned_keys tr"

definition metric_key :: "Metric \<Rightarrow> string \<times> int \<times> bool" where
  "metric_key m = (GuardrailName m, MPriority m, MPassed m)"

fun is_Running :: "task \<Rightarrow> bool" where
  "is_Running (Running t) = True"
| "is_Running Pending = False"
| "is_Running Finished = False"





chapter \<open>Properties\<close>

section \<open>Evaluation of the concrete configurations\<close>

lemmas handler_defs =
  ServeHTTP_def serve_request_def serve_response_def RegisterProvider_def NewProxyHandler_def
  SupportedEndpoints_def isMethodAllowed_def ToUpper_def upper_char_def body_method_def
  read_all_def getRequestIDFromContext_def http_Error_def Write_def WriteHeader_def
  client_status_def client_body_def hSet_def hGet_def copy_headers_def corsHeaders_def

lemmas fixture_defs =
  gateway_def openai_provider_def plain_env_def chat_request_def blank_writer_def
  idle_world_def capture4_def stamps0_def healthy_db_def NewCaptureMiddleware_def

lemmas executor_defs =
  ExecuteInput_def ExecuteOutput_def ExecuteOutputWithResponses_def executeParallel_def
  executeGroupParallel_def run_group_def spawn_def world_of_def completion_def step_def
  task_start_def task_finish_def expire_def go_return_def track_failure_def write_metric_def
  new_metric_def priorities_def next_content_def allow_guardrail_def deny_guardrail_def
  rewrite_guardrail_def with_input_guardrails_def with_output_guardrails_def
  SetGuardrailExecutor_def BuildResponse_def buildChatCompletionResponse_def
  buildLegacyCompletionResponse_def

section \<open>The capture layer\<close>

text \<open>
  Below the cap the captured body is the input, and above it the captured body is the
  first \<open>cap\<close> bytes followed by the marker.
\<close>

lemma captureBody_below_cap:
  "int (length s) < cap \<Longrightarrow> captureBody (Body s) cap = Inr s"
  by (auto simp: captureBody_def)

lemma captureBody_above_cap:
  "0 < cap \<Longrightarrow> cap < int (length s) \<Longrightarrow>
   captureBody (Body s) cap = Inr (take (nat cap) s @ TRUNCATED)"
  by (auto simp: captureBody_def)

lemma captureBody_length_bound:
  "0 \<le> cap \<Longrightarrow> captureBody b cap = Inr out \<Longrightarrow> int (length out) \<le> cap + int (length TRUNCATED)"
  by (auto simp: captureBody_def split: if_splits ReadCloser.splits)

text \<open>
  The response side of the same middleware keeps a body of exactly the cap as it is:
  \<^verbatim>\<open>captureResponseWriter.Write\<close> compares with \<open>\<le>\<close>.
\<close>

lemma capture_write_at_cap:
  "int (length data) = cap \<Longrightarrow> capture_write cap [] data = data"
  by (simp add: capture_write_def)

text \<open>
  C2. The claim: the captured body equals the input whenever the input is at most the
  cap long, so a body of exactly the cap gets no truncation marker; longer inputs end
  with the marker within \<open>cap + |marker|\<close>. The code: \<^verbatim>\<open>captureBody\<close> appends the marker
  when \<^verbatim>\<open>buf.Len() >= maxSize\<close>, so the four-byte body \<open>abcd\<close> under a cap of four is
  logged with the marker, and is not logged as it was sent.
\<close>

theorem captureBody_marks_body_at_cap:
  "captureBody (Body ''abcd'') 4 = Inr (''abcd'' @ CHR 0x0A # ''... [TRUNCATED]'')
   \<and> captureBody (Body ''abcd'') 4 \<noteq> Inr ''abcd''
   \<and> int (length ''abcd'') \<le> 4"
  by (simp add: captureBody_def TRUNCATED_def)

text \<open>
  C1. The claim: a request body larger than the capture cap is forwarded upstream in
  full, only the logged copy being truncated. The code: \<^verbatim>\<open>Capture\<close> replaces \<^verbatim>\<open>r.Body\<close>
  by a reader over the captured string. Under a cap of four bytes the body
  \<open>hello world\<close> reaches the provider as \<open>hell\<close> followed by the marker, which is
  also what is logged.
\<close>

theorem capture_forwards_truncated_body:
  "map ReqBody (Upstream (fst (Capture capture4 plain_env stamps0
       (ServeHTTP (gateway 200 ''ok'') plain_env)
       blank_writer (chat_request ''POST'' (Some (Body ''hello world''))) idle_world)))
     = [Some (Body (''hell'' @ CHR 0x0A # ''... [TRUNCATED]''))]
   \<and> map_option RequestBody (snd (Capture capture4 plain_env stamps0
       (ServeHTTP (gateway 200 ''ok'') plain_env)
       blank_writer (chat_request ''POST'' (Some (Body ''hello world''))) idle_world))
     = Some (Some (''hell'' @ CHR 0x0A # ''... [TRUNCATED]''))"
  by (simp add: Capture_def handler_defs fixture_defs captureBody_def TRUNCATED_def Let_def)

section \<open>Header sanitization\<close>

text \<open>
  \<^verbatim>\<open>captureHeaders\<close> redacts a sensitive header whatever the case of its name, and
  \<^verbatim>\<open>SanitizeForLog\<close> is idempotent.
\<close>

lemma captureHeaders_redacts:
  "headers key = Some values \<Longrightarrow> sensitiveHeaders (ToLower key) \<Longrightarrow>
   captureHeaders sensitiveHeaders headers key = Some (IStr REDACTED)"
  by (simp add: captureHeaders_def)

lemma SanitizeForLog_idempotent:
  "SanitizeForLog (SanitizeForLog headers) = SanitizeForLog headers"
  by (auto simp: SanitizeForLog_def fun_eq_iff split: option.splits)

text \<open>
  C8. The claim: header sanitization replaces the values of the five sensitive headers
  case-insensitively, introduces no sensitive value and is idempotent. The code:
  \<^verbatim>\<open>SanitizeForLog\<close> binds \<^verbatim>\<open>lowerKey := key\<close> without lower-casing, so the header
  \<open>Authorization\<close>, in the canonical spelling net/http gives it, keeps its value, while
  \<^verbatim>\<open>captureHeaders\<close> redacts the same header.
\<close>

theorem SanitizeForLog_keeps_canonical_authorization:
  "map_option (\<lambda>m. m ''Authorization'')
     (SanitizeForLog (Some [''Authorization'' \<mapsto> IStr ''Bearer sk-secret'']))
     = Some (Some (IStr ''Bearer sk-secret''))
   \<and> captureHeaders sensitiveHeaders [''Authorization'' \<mapsto> [''Bearer sk-secret'']] ''Authorization''
     = Some (IStr ''[REDACTED]'')"
  by (simp add: SanitizeForLog_def captureHeaders_def sensitiveHeaders_def ToLower_def
      lower_char_def REDACTED_def)

section \<open>Storage of request logs\<close>

text \<open>A batch whose logs all carry a response body is inserted or refused with an error.\<close>

lemma batch_values_all_bodies:
  "list_all (\<lambda>l. ResponseBody l \<noteq> None) logs \<Longrightarrow> batch_values vals logs = Return (vals @ logs)"
  by (induction logs arbitrary: vals) auto

lemma SaveRequestLogsBatch_returns:
  "list_all (\<lambda>l. ResponseBody l \<noteq> None) logs \<Longrightarrow>
   \<exists>err. fst (SaveRequestLogsBatch db logs) = Return err"
  by (auto simp: SaveRequestLogsBatch_def batch_values_all_bodies split: option.splits)

text \<open>
  C10. The claim: \<^verbatim>\<open>SaveRequestLogsBatch\<close> never panics on a batch that is not empty,
  logs with a nil \<^verbatim>\<open>ResponseBody\<close> included. The code: the loop prints
  \<^verbatim>\<open>*log.ResponseBody\<close>. The capture middleware leaves \<^verbatim>\<open>ResponseBody\<close> nil when the
  handler wrote no body bytes, as for an upstream 204 with an empty body; the batch of
  that one log panics.
\<close>

theorem SaveRequestLogsBatch_panics_on_nil_body:
  "map_option ResponseBody (snd (Capture capture4 plain_env stamps0
       (ServeHTTP (gateway 204 []) plain_env)
       blank_writer (chat_request ''DELETE'' None) idle_world)) = Some None
   \<and> (case snd (Capture capture4 plain_env stamps0
                 (ServeHTTP (gateway 204 []) plain_env)
                 blank_writer (chat_request ''DELETE'' None) idle_world) of
         Some requestLog \<Rightarrow> fst (SaveRequestLogsBatch healthy_db [requestLog])
       | None \<Rightarrow> Return None)
     = Panic ''runtime error: invalid memory address or nil pointer dereference''"
  by (simp add: Capture_def handler_defs fixture_defs SaveRequestLogsBatch_def
      capture_write_def Let_def)

section \<open>The moderation guardrail fails open\<close>

lemma callModerationAPI_failure:
  "apiKey m = [] \<or> api_failure (api msg) \<Longrightarrow> \<exists>err. callModerationAPI m api msg = Inl err"
  by (auto simp: callModerationAPI_def api_failure_def
      split: api_outcome.splits sum.splits list.splits)

text \<open>
  C9. For every configuration of the moderation guardrail, every decoding of the
  content and every behaviour of the moderation endpoint, \<^verbatim>\<open>Check\<close> returns a result and
  no error. When no user message can be extracted from the content, and when the call
  of the moderation API fails (no key, no response, a status other than 200, an
  undecodable body, no results), the result has \<open>Passed = True\<close> and carries the error
  under the metadata key \<open>error\<close>.
\<close>

theorem moderation_Check_fails_open:
  "\<exists>r. moderation_Check m um api content = Inr r \<and>
       ((\<exists>err. extractUserMessage um content = Inl err) \<longrightarrow>
          Passed r \<and> (\<exists>err. extractUserMessage um content = Inl err
                          \<and> Metadata r ''error'' = Some (IStr err))) \<and>
       (\<forall>msg. extractUserMessage um content = Inr msg \<and> msg \<noteq> []
              \<and> (apiKey m = [] \<or> api_failure (api msg)) \<longrightarrow>
          Passed r \<and> (\<exists>err. callModerationAPI m api msg = Inl err
                          \<and> Metadata r ''error'' = Some (IStr err)))"
proof (cases "extractUserMessage um content")
  case (Inl err)
  then show ?thesis by (simp add: moderation_Check_def)
next
  case (Inr msg)
  show ?thesis
  proof (cases "msg = []")
    case True
    with Inr show ?thesis by (simp add: moderation_Check_def)
  next
    case False
    show ?thesis
    proof (cases "callModerationAPI m api msg")
      case (Inl err)
      with Inr False show ?thesis by (simp add: moderation_Check_def)
    next
      case r: (Inr res)
      then have "\<not> (apiKey m = [] \<or> api_failure (api msg))"
        using callModerationAPI_failure[of m api msg] by auto
      with Inr False r show ?thesis by (simp add: moderation_Check_def Let_def)
    qed
  qed
qed

theorem moderation_Check_fails_open_witness:
  "extractUserMessage not_json ''not json'' = Inl ''unable to extract user message from request''
   \<and> (\<exists>r. moderation_Check moderation0 not_json api_down ''not json'' = Inr r \<and> Passed r
          \<and> Metadata r ''error'' = Some (IStr ''unable to extract user message from request''))
   \<and> extractUserMessage chat_json ''{}'' = Inr ''hi'' \<and> api_failure (api_down ''hi'')
   \<and> (\<exists>r. moderation_Check moderation0 chat_json api_down ''{}'' = Inr r \<and> Passed r
          \<and> Metadata r ''error'' = Some (IStr ''API request failed: connection refused''))"
  using moderation_Check_fails_open[of moderation0 not_json api_down "''not json''"]
        moderation_Check_fails_open[of moderation0 chat_json api_down "''{}''"]
  by (simp add: extractUserMessage_def not_json_def chat_json_def api_down_def api_failure_def
      callModerationAPI_def moderation0_def)

section \<open>The proxy handler\<close>

lemma chat_doc_shape: "chat_completion_shape (chat_completion_doc uuid now)"
  by (simp add: chat_completion_shape_def chat_completion_doc_def member_def element_def)

lemma legacy_doc_shape: "legacy_completion_shape (legacy_completion_doc uuid now)"
  by (simp add: legacy_completion_shape_def legacy_completion_doc_def member_def element_def)

lemma BuildResponse_eq:
  "BuildResponse env endpoint =
     Inr (json_Marshal env (if endpoint = ''/v1/completions''
                            then legacy_completion_doc (new_uuid env) (unix_now env)
                            else chat_completion_doc (new_uuid env) (unix_now env)))"
  by (simp add: BuildResponse_def buildChatCompletionResponse_def
      buildLegacyCompletionResponse_def)


lemma output_block_refusal:
  assumes "read_all (RBody resp) = Inr body"
    and "guardrailExecutor h = Some executor"
    and "responseBody =
           (if Contains (ToLower (hGet (RHeader resp) ''Content-Encoding'')) ''gzip''
            then (case gunzip env body of Some decompressed \<Rightarrow> decompressed | None \<Rightarrow> body)
            else body)"
    and "responseBody \<noteq> []"
    and "ExecuteOutput executor (ReqCtx r) requestID responseBody (sched_output env) wd
           = ((result, None), wd')"
    and "\<not> XPassed result"
    and "WStatus w = None"
  shows "client_status (Client (serve_response h env w r requestID resp wd)) = 200
       \<and> WHeader (Client (serve_response h env w r requestID resp wd)) ''Content-Type''
           = Some [''application/json'']
       \<and> (\<exists>doc. client_body (Client (serve_response h env w r requestID resp wd))
                   = client_body w @ json_Marshal env doc
              \<and> (if URLPath r = ''/v1/completions'' then legacy_completion_shape doc
                  else chat_completion_shape doc))
       \<and> WHeader (Client (serve_response h env w r requestID resp wd)) ''Content-Encoding''
           = copy_headers (RHeader resp) (WHeader w) ''Content-Encoding''"
proof (cases "URLPath r = ''/v1/completions''")
  case True
  with assms legacy_doc_shape show ?thesis
    by (auto simp: serve_response_def Let_def BuildResponse_eq Write_def WriteHeader_def
        client_status_def client_body_def hSet_def)
next
  case False
  with assms chat_doc_shape show ?thesis
    by (auto simp: serve_response_def Let_def BuildResponse_eq Write_def WriteHeader_def
        client_status_def client_body_def hSet_def)
qed

text \<open>
  C6. The claim: every blocked request is answered with status 200,
  \<open>Content-Type: application/json\<close> and a body in the endpoint's native schema that
  carries the refusal string. The code: on an output-layer block \<^verbatim>\<open>ServeHTTP\<close> copies
  every upstream header into the response and then resets \<open>Content-Length\<close> and
  \<open>Content-Type\<close> only. When the upstream answered with \<open>Content-Encoding: gzip\<close>,
  the refusal, which is plain JSON text and does not decompress, goes to the client
  under that header.
\<close>

theorem output_refusal_keeps_upstream_content_encoding:
  "map_sum id (\<lambda>resp. RHeader resp ''Content-Encoding'')
       (ProxyRequest gzip_provider (chat_request ''POST'' (Some (Body ''hello''))))
       = Inr (Some [''gzip''])
   \<and> map_option BlockLayer (Block (ServeHTTP gzip_gateway gzip_env blank_writer
       (chat_request ''POST'' (Some (Body ''hello''))) idle_world)) = Some ''output''
   \<and> client_status (Client (ServeHTTP gzip_gateway gzip_env blank_writer
       (chat_request ''POST'' (Some (Body ''hello''))) idle_world)) = 200
   \<and> WHeader (Client (ServeHTTP gzip_gateway gzip_env blank_writer
       (chat_request ''POST'' (Some (Body ''hello''))) idle_world)) ''Content-Type''
       = Some [''application/json'']
   \<and> WHeader (Client (ServeHTTP gzip_gateway gzip_env blank_writer
       (chat_request ''POST'' (Some (Body ''hello''))) idle_world)) ''Content-Encoding''
       = Some [''gzip'']
   \<and> client_body (Client (ServeHTTP gzip_gateway gzip_env blank_writer
       (chat_request ''POST'' (Some (Body ''hello''))) idle_world))
       = json_Marshal gzip_env (chat_completion_doc (new_uuid gzip_env) (unix_now gzip_env))
   \<and> gunzip gzip_env (client_body (Client (ServeHTTP gzip_gateway gzip_env blank_writer
       (chat_request ''POST'' (Some (Body ''hello''))) idle_world))) = None"
  by (simp add: handler_defs fixture_defs executor_defs gzip_gateway_def gzip_env_def
      gzip_provider_def ToLower_def lower_char_def Let_def upt_rec)

text \<open>
  The method check reads neither the endpoint nor the provider: it admits exactly the
  methods whose upper-cased name is one of five.
\<close>

lemma isMethodAllowed_fixed_list:
  "isMethodAllowed endpoint method provider
     = (ToUpper method \<in> set [''GET'', ''POST'', ''PUT'', ''DELETE'', ''PATCH''])"
  by (auto simp: isMethodAllowed_def)

text \<open>
  C3, as the claim states it, fails: the gateway's provider advertises only \<open>POST\<close>
  for \<open>/v1/chat/completions\<close>, and a \<open>GET\<close> of that endpoint is forwarded upstream
  and answered with the upstream's status.
\<close>

theorem unadvertised_method_is_forwarded:
  "list_all (\<lambda>e. ''GET'' \<notin> set (Methods e)) (Endpoints (openai_provider 200 ''ok''))
   \<and> routes (gateway 200 ''ok'') ''/v1/chat/completions'' = Some ''openai''
   \<and> providers (gateway 200 ''ok'') ''openai'' = Some (openai_provider 200 ''ok'')
   \<and> client_status (Client (ServeHTTP (gateway 200 ''ok'') plain_env blank_writer
        (chat_request ''GET'' None) idle_world)) = 200
   \<and> map Method (Upstream (ServeHTTP (gateway 200 ''ok'') plain_env blank_writer
        (chat_request ''GET'' None) idle_world)) = [''GET'']"
  by (simp add: handler_defs fixture_defs Let_def)

text \<open>
  C3, amended. For every registered endpoint, a request whose upper-cased method is not
  one of \<open>GET\<close>, \<open>POST\<close>, \<open>PUT\<close>, \<open>DELETE\<close>, \<open>PATCH\<close> is rejected with status
  405, is not forwarded upstream and reaches no guardrail; the check admits exactly
  these five methods for every endpoint and provider, whatever the provider advertises.
\<close>

theorem unlisted_method_rejected:
  assumes "routes h (URLPath r) = Some providerName"
    and "providers h providerName = Some provider"
    and "ToUpper (Method r) \<notin> set [''GET'', ''POST'', ''PUT'', ''DELETE'', ''PATCH'']"
    and "WStatus w = None"
  shows "client_status (Client (ServeHTTP h env w r wd)) = 405
       \<and> Upstream (ServeHTTP h env w r wd) = []
       \<and> World (ServeHTTP h env w r wd) = wd
       \<and> (\<forall>endpoint method p. isMethodAllowed endpoint method p
             = (ToUpper method \<in> set [''GET'', ''POST'', ''PUT'', ''DELETE'', ''PATCH'']))"
proof -
  from assms(3) have "\<not> isMethodAllowed (URLPath r) (Method r) provider"
    by (simp add: isMethodAllowed_fixed_list)
  with assms(1,2) have "ServeHTTP h env w r wd
      = \<lparr>Client = http_Error w (''Method '' @ Method r @ '' not allowed for endpoint '' @ URLPath r) 405,
         Upstream = [], World = wd, Block = None\<rparr>"
    by (simp add: ServeHTTP_def)
  with assms(4) show ?thesis
    by (simp add: http_Error_def Write_def WriteHeader_def client_status_def
        isMethodAllowed_fixed_list)
qed

theorem unlisted_method_rejected_witness:
  "routes (gateway 200 ''ok'') (URLPath (chat_request ''trace'' None)) = Some ''openai''
   \<and> providers (gateway 200 ''ok'') ''openai'' = Some (openai_provider 200 ''ok'')
   \<and> ToUpper (Method (chat_request ''trace'' None)) = ''TRACE''
   \<and> client_status (Client (ServeHTTP (gateway 200 ''ok'') plain_env blank_writer
        (chat_request ''trace'' None) idle_world)) = 405
   \<and> Upstream (ServeHTTP (gateway 200 ''ok'') plain_env blank_writer
        (chat_request ''trace'' None) idle_world) = []"
proof -
  have a: "routes (gateway 200 ''ok'') (URLPath (chat_request ''trace'' None)) = Some ''openai''"
    by (simp add: fixture_defs RegisterProvider_def NewProxyHandler_def SupportedEndpoints_def)
  have b: "providers (gateway 200 ''ok'') ''openai'' = Some (openai_provider 200 ''ok'')"
    by (simp add: fixture_defs RegisterProvider_def NewProxyHandler_def SupportedEndpoints_def)
  have c: "ToUpper (Method (chat_request ''trace'' None)) = ''TRACE''"
    by (simp add: chat_request_def ToUpper_def upper_char_def)
  have d: "ToUpper (Method (chat_request ''trace'' None))
             \<notin> set [''GET'', ''POST'', ''PUT'', ''DELETE'', ''PATCH'']"
    by (simp add: c)
  have e: "WStatus blank_writer = None" by (simp add: blank_writer_def)
  from unlisted_method_rejected[OF a b d e, of plain_env idle_world] a b c
  show ?thesis by simp
qed

section \<open>The guardrail executor: one group\<close>

lemma returned_keys_append [simp]:
  "returned_keys (xs @ ys) = returned_keys xs @ returned_keys ys"
  by (induction xs rule: returned_keys.induct) auto

text \<open>The effect of each kind of step on the state of a group.\<close>

lemma task_start_idle:
  "\<not> (i < length (tasks s) \<and> i < length (c_guardrails c)) \<or> tasks s ! i \<noteq> Pending
   \<Longrightarrow> task_start c i s = s"
  by (auto simp: task_start_def split: task.splits)

lemma task_start_invokes:
  assumes "i < length (tasks s)" "i < length (c_guardrails c)" "tasks s ! i = Pending"
    "gctx s = None"
  shows "task_start c i s =
           s\<lparr>tasks := (tasks s)[i := Running (clock s)],
             trace := trace s @ [Invoked (Name (c_guardrails c ! i))
                                   (Priority (c_guardrails c ! i)) (c_content c)]\<rparr>"
  using assms by (simp add: task_start_def Let_def)

lemma task_start_skips:
  assumes "i < length (tasks s)" "i < length (c_guardrails c)" "tasks s ! i = Pending"
    "gctx s = Some e"
  shows "task_start c i s =
           s\<lparr>tasks := (tasks s)[i := Finished],
             gerr := (case gerr s of None \<Rightarrow> Some e | Some e' \<Rightarrow> Some e')\<rparr>"
  using assms by (cases "gerr s") (simp_all add: task_start_def go_return_def)

lemma task_finish_idle:
  "\<not> (i < length (tasks s) \<and> i < length (c_guardrails c)) \<or> \<not> is_Running (tasks s ! i)
   \<Longrightarrow> task_finish c i s = s"
  by (auto simp: task_finish_def split: task.splits)

lemma task_finish_returns:
  assumes "i < length (tasks s)" "i < length (c_guardrails c)" "tasks s ! i = Running t0"
  defines "g \<equiv> c_guardrails c ! i"
  defines "out \<equiv> Check g (gctx s) (c_content c)"
  defines "s' \<equiv> task_finish c i s"
  shows "tasks s' = (tasks s)[i := Finished]
    \<and> trace s' = trace s @ [Returned (Name g) (Priority g) out]
    \<and> (if c_writer c
           then \<exists>m. written s' = written s @ [m]
                  \<and> metric_key m = (Name g, Priority g, \<not> failing out)
                  \<and> StartTime m = t0 \<and> EndTime m = clock s \<and> DurationMs m = clock s - t0
           else written s' = written s)
    \<and> results s' = (if failing out then results s
                       else (results s)[i := Some \<lparr>GName = Name g, GPriority = Priority g,
                              GResult = (case out of Inr res \<Rightarrow> Some res | Inl e \<Rightarrow> None),
                              GDuration = clock s - t0\<rparr>])
    \<and> firstFailure s' =
           (if failing out
            then (case firstFailure s of
                    None \<Rightarrow> Some \<lparr>FName = Name g, FPriority = Priority g, FReason = reason_of out\<rparr>
                  | Some f \<Rightarrow> if Priority g < FPriority f
                              then Some \<lparr>FName = Name g, FPriority = Priority g, FReason = reason_of out\<rparr>
                              else Some f)
            else firstFailure s)
    \<and> gerr s' = (if failing out \<and> gerr s = None
                    then Some (Name g @ (case out of Inl e \<Rightarrow> '' failed: '' @ e
                                          | Inr res \<Rightarrow> '' rejected: '' @ Reason res))
                    else gerr s)
    \<and> tctx s' = tctx s \<and> clock s' = clock s
    \<and> gctx s' = (if failing out \<and> gerr s = None \<and> gctx s = None then Some Canceled else gctx s)"
proof -
  consider (err) e where "out = Inl e"
    | (rejected) res where "out = Inr res" "\<not> Passed res"
    | (passed) res where "out = Inr res" "Passed res"
    by (cases out) auto
  then show ?thesis
  proof cases
    case err
    then have o: "Check (c_guardrails c ! i) (gctx s) (c_content c) = Inl e"
      by (simp add: out_def g_def)
    show ?thesis
      unfolding s'_def err g_def
      using assms(1-3) o
      by (cases "firstFailure s"; cases "gerr s"; cases "gctx s"; cases "c_writer c")
         (simp_all add: task_finish_def Let_def failing_def reason_of_def go_return_def
            track_failure_def write_metric_def new_metric_def metric_key_def)
  next
    case rejected
    then have o: "Check (c_guardrails c ! i) (gctx s) (c_content c) = Inr res"
      by (simp add: out_def g_def)
    show ?thesis
      unfolding s'_def rejected(1) g_def
      using assms(1-3) o rejected(2)
      by (cases "firstFailure s"; cases "gerr s"; cases "gctx s"; cases "c_writer c")
         (simp_all add: task_finish_def Let_def failing_def reason_of_def go_return_def
            track_failure_def write_metric_def new_metric_def metric_key_def)
  next
    case passed
    then have o: "Check (c_guardrails c ! i) (gctx s) (c_content c) = Inr res"
      by (simp add: out_def g_def)
    show ?thesis
      unfolding s'_def passed(1) g_def
      using assms(1-3) o passed(2)
      by (cases "c_writer c")
         (simp_all add: task_finish_def Let_def failing_def reason_of_def go_return_def
            write_metric_def new_metric_def metric_key_def)
  qed
qed



text \<open>The five kinds of step.\<close>

lemma step_cases [case_names idle deadline invoke skip return]:
  obtains (idle) "step c e s = s\<lparr>clock := Suc (clock s)\<rparr>"
  | (deadline) "step c e s = (expire s)\<lparr>clock := Suc (clock s)\<rparr>"
  | (invoke) i where "i < length (tasks s)" "i < length (c_guardrails c)"
      "tasks s ! i = Pending" "gctx s = None"
      "step c e s =
         s\<lparr>tasks := (tasks s)[i := Running (clock s)],
           trace := trace s @ [Invoked (Name (c_guardrails c ! i))
                                 (Priority (c_guardrails c ! i)) (c_content c)],
           clock := Suc (clock s)\<rparr>"
  | (skip) i e0 where "i < length (tasks s)" "i < length (c_guardrails c)"
      "tasks s ! i = Pending" "gctx s = Some e0"
      "step c e s =
         s\<lparr>tasks := (tasks s)[i := Finished],
           gerr := (case gerr s of None \<Rightarrow> Some e0 | Some e' \<Rightarrow> Some e'),
           clock := Suc (clock s)\<rparr>"
  | (return) i t0 where "i < length (tasks s)" "i < length (c_guardrails c)"
      "tasks s ! i = Running t0"
      "step c e s = (task_finish c i s)\<lparr>clock := Suc (clock s)\<rparr>"
proof (cases e)
  case (Start i)
  show ?thesis
  proof (cases "i < length (tasks s) \<and> i < length (c_guardrails c) \<and> tasks s ! i = Pending")
    case False
    then have "step c e s = s\<lparr>clock := Suc (clock s)\<rparr>"
      using Start task_start_idle[of i s c] by (auto simp: step_def)
    then show ?thesis by (rule idle)
  next
    case True
    show ?thesis
    proof (cases "gctx s")
      case None
      with True Start show ?thesis
        by (intro invoke[of i]) (simp_all add: step_def task_start_invokes)
    next
      case (Some e0)
      with True Start show ?thesis
        by (intro skip[of i e0]) (simp_all add: step_def task_start_skips)
    qed
  qed
next
  case (Finish i)
  show ?thesis
  proof (cases "i < length (tasks s) \<and> i < length (c_guardrails c) \<and> is_Running (tasks s ! i)")
    case False
    then have "step c e s = s\<lparr>clock := Suc (clock s)\<rparr>"
      using Finish task_finish_idle[of i s c] by (auto simp: step_def)
    then show ?thesis by (rule idle)
  next
    case True
    then obtain t0 where "tasks s ! i = Running t0" by (cases "tasks s ! i") auto
    with True Finish show ?thesis
      by (intro return[of i t0]) (simp_all add: step_def)
  qed
next
  case Deadline
  then have "step c e s = (expire s)\<lparr>clock := Suc (clock s)\<rparr>" by (simp add: step_def)
  then show ?thesis by (rule deadline)
qed

lemma step_tasks_length [simp]: "length (tasks (step c e s)) = length (tasks s)"
proof (cases rule: step_cases[of c e s])
  case (return i t0)
  then show ?thesis using task_finish_returns[of i s c t0] by simp
qed (simp_all add: expire_def)






lemma returned_keys_Invoked [simp]: "returned_keys [Invoked n p x] = []"
  by simp










section \<open>The executor reports no error\<close>













end
